theory Spec2Isabelle
  imports Complex_Main "HOL-Library.Word" "HOL-Library.Product_Lexorder"
begin

unbundle bit_operations_syntax

section \<open>Bytes, buffers and Python's sequence operations\<close>

text \<open>
  A UDP payload (\<open>bytes\<close>) and a Group's frame buffer (\<open>bytearray\<close>) are lists of
  8-bit words. Every Python operation that can raise is modelled with an explicit error
  result; slice reads and slice assignments follow Python's clipping rules, so a slice
  assignment whose right-hand side has another length than the slice would change the
  length of the buffer in the model exactly as it does for a \<open>bytearray\<close>.
\<close>

type_synonym byte = "8 word"

datatype py_error = KeyError | IndexError

text \<open>\<open>xs[a:b]\<close> for non-negative \<open>a\<close>, \<open>b\<close>: never raises, clips to the sequence.\<close>

definition py_slice :: "'a list \<Rightarrow> nat \<Rightarrow> nat \<Rightarrow> 'a list" where
  "py_slice xs a b = take (b - a) (drop a xs)"

text \<open>\<open>xs[a:b] = ys\<close> for non-negative \<open>a\<close>, \<open>b\<close>: both bounds are clipped to
  \<open>len(xs)\<close>, an upper bound below the lower one is raised to it, and the slice is
  replaced by all of \<open>ys\<close>.\<close>

definition set_slice :: "'a list \<Rightarrow> nat \<Rightarrow> nat \<Rightarrow> 'a list \<Rightarrow> 'a list" where
  "set_slice xs a b ys =
     (let n = length xs; a' = min a n; b' = max a' (min b n)
      in take a' xs @ ys @ drop b' xs)"

text \<open>\<open>xs[i]\<close> and \<open>xs[i] = v\<close> for a non-negative index: IndexError out of range.\<close>

definition get_item :: "'a list \<Rightarrow> nat \<Rightarrow> py_error + 'a" where
  "get_item xs i = (if i < length xs then Inr (xs ! i) else Inl IndexError)"

definition set_item :: "'a list \<Rightarrow> nat \<Rightarrow> 'a \<Rightarrow> py_error + 'a list" where
  "set_item xs i v = (if i < length xs then Inr (xs[i := v]) else Inl IndexError)"

text \<open>Sequencing of statements that can raise: the first exception ends the block.\<close>

definition bindE :: "'e + 'a \<Rightarrow> ('a \<Rightarrow> 'e + 'b) \<Rightarrow> 'e + 'b" where
  "bindE m f = (case m of Inl e \<Rightarrow> Inl e | Inr x \<Rightarrow> f x)"

text \<open>\<open>int.from_bytes(bs, "big")\<close>; the empty sequence gives 0.\<close>

definition from_bytes_big :: "byte list \<Rightarrow> nat" where
  "from_bytes_big bs = foldl (\<lambda>acc b. acc * 256 + unat b) 0 bs"

section \<open>Protocol decoders\<close>

subsection \<open>The DDP classifier\<close>

definition looks_like_ddp :: "byte list \<Rightarrow> bool" where
  "looks_like_ddp data =
     (if length data < 10 then False
      else
        let version = drop_bit 6 ((data ! 0) AND 0xC0) in
        if version = 0 then False
        else
          let header_len = (if (data ! 0) AND 0x10 \<noteq> 0 then 14 else 10 :: nat) in
          if length data < header_len then False
          else
            let len = from_bytes_big (py_slice data 8 10) in
            if len = 0 then True
            else
              let payload_len = length data - header_len in
              if len \<le> payload_len then True
              else if len * 3 = payload_len then True
              else False)"

text \<open>The header fields, named for the statements below.\<close>

definition ddp_version :: "byte list \<Rightarrow> byte" where
  "ddp_version data = drop_bit 6 ((data ! 0) AND 0xC0)"

definition ddp_header_len :: "byte list \<Rightarrow> nat" where
  "ddp_header_len data = (if (data ! 0) AND 0x10 \<noteq> 0 then 14 else 10)"

definition ddp_declared_len :: "byte list \<Rightarrow> nat" where
  "ddp_declared_len data = from_bytes_big (py_slice data 8 10)"

subsection \<open>The DDP decoder\<close>

text \<open>
  \<open>parse_ddp\<close> reads \<open>data[0]\<close> without a length check, so the empty datagram raises.
  The result is the push flag together with the frame buffer after the write.
\<close>

definition parse_ddp :: "byte list \<Rightarrow> byte list \<Rightarrow> py_error + (bool \<times> byte list)" where
  "parse_ddp data frame_buffer =
     (case get_item data 0 of
        Inl e \<Rightarrow> Inl e
      | Inr b0 \<Rightarrow>
          let header_len = (if b0 AND 0x10 \<noteq> 0 then 14 else 10 :: nat);
              offset = from_bytes_big (py_slice data 4 8);
              len0 = from_bytes_big (py_slice data 8 10);
              payload0 = drop header_len data;
              len = (if len0 \<noteq> 0 \<and> len0 * 3 = length payload0 then length payload0 else len0);
              payload = (if len \<noteq> 0 \<and> length payload0 > len then take len payload0 else payload0);
              push = (b0 AND 0x01 \<noteq> 0)
          in if offset < length frame_buffer then
               let end = min (length frame_buffer) (offset + length payload)
               in Inr (push, set_slice frame_buffer offset end (take (end - offset) payload))
             else Inr (push, frame_buffer))"

subsection \<open>The notification-family (WLED) decoder\<close>

definition clear_tail :: "byte list \<Rightarrow> nat \<Rightarrow> byte list" where
  "clear_tail frame_buffer start =
     (if start < length frame_buffer
      then set_slice frame_buffer start (length frame_buffer)
             (replicate (length frame_buffer - start) 0)
      else frame_buffer)"

text \<open>The dense copy shared by sub-protocol 2 and the raw fallback:
  \<open>copy_len = min(len(fb), len(payload)); fb[:copy_len] = payload[:copy_len]\<close>, then
  the tail is cleared when the payload is shorter than the buffer.\<close>

definition copy_and_clear :: "byte list \<Rightarrow> byte list \<Rightarrow> byte list" where
  "copy_and_clear payload frame_buffer =
     (let copy_len = min (length frame_buffer) (length payload);
          fb1 = set_slice frame_buffer 0 copy_len (py_slice payload 0 copy_len)
      in if length payload < length fb1 then clear_tail fb1 copy_len else fb1)"

text \<open>Three consecutive item assignments \<open>fb[o] = a; fb[o+1] = b; fb[o+2] = c\<close> whose
  right-hand sides are the reads \<open>payload[i]\<close>, \<open>payload[i+1]\<close>, \<open>payload[i+2]\<close>; each
  read and each write can raise.\<close>

definition write_rgb :: "byte list \<Rightarrow> nat \<Rightarrow> byte list \<Rightarrow> nat \<Rightarrow> py_error + byte list" where
  "write_rgb frame_buffer offset payload i =
     bindE (get_item payload i) (\<lambda>r.
     bindE (set_item frame_buffer offset r) (\<lambda>fb1.
     bindE (get_item payload (i + 1)) (\<lambda>g.
     bindE (set_item fb1 (offset + 1) g) (\<lambda>fb2.
     bindE (get_item payload (i + 2)) (\<lambda>b.
     set_item fb2 (offset + 2) b)))))"

text \<open>Sub-protocol 1: \<open>for i in range(0, len(payload), 4)\<close> over \<open>[index, r, g, b]\<close>
  quads; \<open>break\<close> on a short quad, \<open>continue\<close> on an index outside the buffer.\<close>

function warls_loop :: "byte list \<Rightarrow> nat \<Rightarrow> byte list \<Rightarrow> py_error + byte list" where
  "warls_loop payload i frame_buffer =
     (if i \<ge> length payload then Inr frame_buffer
      else if i + 3 \<ge> length payload then Inr frame_buffer
      else
        case get_item payload i of Inl e \<Rightarrow> Inl e | Inr idx \<Rightarrow>
          if unat idx * 3 + 2 \<ge> length frame_buffer
          then warls_loop payload (i + 4) frame_buffer
          else
            (case write_rgb frame_buffer (unat idx * 3) payload (i + 1) of
               Inl e \<Rightarrow> Inl e
             | Inr fb' \<Rightarrow> warls_loop payload (i + 4) fb'))"
  by pat_completeness auto
termination
  by (relation "measure (\<lambda>(payload, i, fb). length payload - i)") auto

declare warls_loop.simps [simp del]

text \<open>Sub-protocol 3: 4-byte input stride compacted to 3-byte output stride.\<close>

function drgbw_loop :: "byte list \<Rightarrow> nat \<Rightarrow> nat \<Rightarrow> byte list \<Rightarrow> py_error + byte list" where
  "drgbw_loop payload i out frame_buffer =
     (if i \<ge> length payload then Inr frame_buffer
      else if i + 2 \<ge> length payload \<or> out + 2 \<ge> length frame_buffer then Inr frame_buffer
      else
        case write_rgb frame_buffer out payload i of
          Inl e \<Rightarrow> Inl e
        | Inr fb' \<Rightarrow> drgbw_loop payload (i + 4) (out + 3) fb')"
  by pat_completeness auto
termination
  by (relation "measure (\<lambda>(payload, i, out, fb). length payload - i)") auto

declare drgbw_loop.simps [simp del]

text \<open>Sub-protocol 4: dense RGB from a 16-bit start index.\<close>

function dnrgb_loop :: "byte list \<Rightarrow> nat \<Rightarrow> nat \<Rightarrow> byte list \<Rightarrow> py_error + byte list" where
  "dnrgb_loop payload start i frame_buffer =
     (if i \<ge> length payload then Inr frame_buffer
      else
        let idx = start + i div 3; offset = idx * 3 in
        if i + 2 \<ge> length payload \<or> offset + 2 \<ge> length frame_buffer then Inr frame_buffer
        else
          case write_rgb frame_buffer offset payload i of
            Inl e \<Rightarrow> Inl e
          | Inr fb' \<Rightarrow> dnrgb_loop payload start (i + 3) fb')"
  by pat_completeness auto
termination
  by (relation "measure (\<lambda>(payload, start, i, fb). length payload - i)") auto

declare dnrgb_loop.simps [simp del]

text \<open>\<open>parse_wled_or_raw\<close> returns nothing; the model returns the frame buffer after
  the call, or the exception raised.\<close>

definition parse_wled_or_raw :: "byte list \<Rightarrow> byte list \<Rightarrow> py_error + byte list" where
  "parse_wled_or_raw data frame_buffer =
     (if data = [] then Inr frame_buffer
      else
        bindE (get_item data 0) (\<lambda>proto.
        if proto \<in> {1, 2, 3, 4} \<and> length data \<ge> 2 then
          if proto = 2 \<and> (length data - 1) mod 3 = 0 then
            Inr (copy_and_clear (drop 1 data) frame_buffer)
          else if length data < 2 then Inr frame_buffer
          else if proto = 1 then warls_loop (drop 2 data) 0 frame_buffer
          else if proto = 2 then Inr (copy_and_clear (drop 2 data) frame_buffer)
          else if proto = 3 then drgbw_loop (drop 2 data) 0 0 frame_buffer
          else if proto = 4 then
            if length data < 4 then Inr frame_buffer
            else
              bindE (get_item data 2) (\<lambda>hi.
              bindE (get_item data 3) (\<lambda>lo.
              dnrgb_loop (drop 4 data) (push_bit 8 (unat hi) OR unat lo) 0 frame_buffer))
          else Inr frame_buffer
        else if length data mod 3 = 0 then Inr (copy_and_clear data frame_buffer)
        else Inr frame_buffer))"

section \<open>The reactive runtime loop\<close>

text \<open>
  The model covers, of one iteration of \<open>run_bridge\<close>'s \<open>while True\<close> loop, the
  idle-clear block and the body of \<open>for key, _ in events\<close> (one received datagram for
  one Group); the keepalive, watchdog and statistics blocks are not part of it.
  Timestamps (\<open>time.monotonic()\<close>, floats in the source) are real numbers, and the
  iteration's \<open>now\<close> is an input. \<open>mapper.apply_frame_map\<close> talks to the device SDK, so inside the
  loop it is a call to the environment: the call is recorded with the frame it was given,
  and its outcome (returned True, returned False, raised) is read from an oracle indexed
  by the number of calls made so far. \<open>attempt_reconnect\<close> is recorded as an effect; the
  rebuild it performs is outside the model.
\<close>

datatype apply_outcome = Applied | NotApplied | Raised

datatype effect = ApplyFrameMap string "byte list" | AttemptReconnect string

fun is_apply :: "effect \<Rightarrow> bool" where
  "is_apply (ApplyFrameMap n f) = True"
| "is_apply (AttemptReconnect r) = False"

record group =
  g_name :: string
  g_protocol :: string
  g_frame_buffer :: "byte list"
  g_last_send :: real
  g_first_packet :: bool
  g_pkt_count :: nat
  g_byte_count :: nat
  g_last_packet_ts :: real
  g_fail_count :: int
  g_idle_cleared :: bool
  g_idle_clear_disabled :: bool
  g_idle_clear_seconds :: "real option"
  g_keepalive_interval :: "real option"
  g_ddp_auto :: bool

record loop_cfg =
  max_fps :: real
  apply_fail_threshold :: int
  debug_udp :: bool
  unique_idle_clear_enabled :: bool
  unique_idle_clear_s :: real
  keepalive_interval :: real

text \<open>\<open>min_interval = 1.0 / max_fps if max_fps > 0 else 0\<close>\<close>

definition min_interval :: "loop_cfg \<Rightarrow> real" where
  "min_interval cfg = (if max_fps cfg > 0 then 1 / max_fps cfg else 0)"

text \<open>The call \<open>mapper.apply_frame_map(g["map"], g["device_ids"], frame, ...)\<close>.\<close>

definition call_apply_frame_map ::
  "(nat \<Rightarrow> apply_outcome) \<Rightarrow> string \<Rightarrow> byte list \<Rightarrow> effect list \<Rightarrow> apply_outcome \<times> effect list" where
  "call_apply_frame_map env gname frame trace =
     (env (length (filter is_apply trace)), trace @ [ApplyFrameMap gname frame])"

text \<open>Lines 3406 to 3424: the bookkeeping done for every received datagram.\<close>

definition note_datagram :: "loop_cfg \<Rightarrow> real \<Rightarrow> byte list \<Rightarrow> group \<Rightarrow> group" where
  "note_datagram cfg now data g =
     (let g1 = (if g_first_packet g then g\<lparr>g_first_packet := False\<rparr> else g);
          g2 = (if debug_udp cfg
                then g1\<lparr>g_pkt_count := g_pkt_count g1 + 1,
                        g_byte_count := g_byte_count g1 + length data\<rparr>
                else g1)
      in g2\<lparr>g_last_packet_ts := now, g_idle_cleared := False\<rparr>)"

text \<open>Lines 3453 to 3473: the rate limit, then the application of the frame buffer.\<close>

definition rate_limit_and_apply ::
  "loop_cfg \<Rightarrow> (nat \<Rightarrow> apply_outcome) \<Rightarrow> real \<Rightarrow> group \<Rightarrow> effect list \<Rightarrow> group \<times> effect list" where
  "rate_limit_and_apply cfg env now g trace =
     (if min_interval cfg \<noteq> 0 \<and> now - g_last_send g < min_interval cfg then (g, trace)
      else
        let g1 = g\<lparr>g_last_send := now\<rparr>;
            (outcome, trace1) = call_apply_frame_map env (g_name g1) (g_frame_buffer g1) trace
        in case outcome of
             Applied \<Rightarrow> (g1\<lparr>g_fail_count := 0\<rparr>, trace1)
           | NotApplied \<Rightarrow>
               let g2 = g1\<lparr>g_fail_count := g_fail_count g1 + 1\<rparr>
               in if g_fail_count g2 \<ge> apply_fail_threshold cfg
                  then (g2\<lparr>g_fail_count := 0\<rparr>, trace1 @ [AttemptReconnect ''apply_no_success''])
                  else (g2, trace1)
           | Raised \<Rightarrow> (g1, trace1 @ [AttemptReconnect ''apply_frame_map_error'']))"

text \<open>
  The body of \<open>for key, _ in events\<close> after a successful \<open>recvfrom\<close>. An exception of a
  decoder is not caught inside the loop (only \<open>KeyboardInterrupt\<close> is, around the whole
  loop), so it ends \<open>run_bridge\<close>: the result is then the exception.
\<close>

definition handle_datagram ::
  "loop_cfg \<Rightarrow> (nat \<Rightarrow> apply_outcome) \<Rightarrow> real \<Rightarrow> byte list \<Rightarrow> group \<Rightarrow> effect list
     \<Rightarrow> py_error + (group \<times> effect list)" where
  "handle_datagram cfg env now data g0 trace =
     (let g = note_datagram cfg now data g0;
          protocol = g_protocol g;
          frame_buffer = g_frame_buffer g;
          ddp_like = looks_like_ddp data
      in
        if protocol = ''ddp'' \<or> (protocol \<in> {''auto'', ''wled''} \<and> ddp_like) then
          let g1 = (if protocol = ''wled'' \<and> ddp_like \<and> \<not> g_ddp_auto g
                    then g\<lparr>g_ddp_auto := True\<rparr> else g)
          in case parse_ddp data frame_buffer of
               Inl e \<Rightarrow> Inl e
             | Inr (push, fb') \<Rightarrow>
                 if \<not> push then Inr (g1\<lparr>g_frame_buffer := fb'\<rparr>, trace)
                 else Inr (rate_limit_and_apply cfg env now (g1\<lparr>g_frame_buffer := fb'\<rparr>) trace)
        else if protocol = ''wled'' then
          (case parse_wled_or_raw data frame_buffer of
             Inl e \<Rightarrow> Inl e
           | Inr fb' \<Rightarrow> Inr (rate_limit_and_apply cfg env now (g\<lparr>g_frame_buffer := fb'\<rparr>) trace))
        else if protocol = ''raw'' then
          if length data mod 3 = 0 then
            let fb' = set_slice frame_buffer 0 (min (length frame_buffer) (length data))
                        (py_slice data 0 (length frame_buffer))
            in Inr (rate_limit_and_apply cfg env now (g\<lparr>g_frame_buffer := fb'\<rparr>) trace)
          else Inr (g, trace)
        else
          (case parse_wled_or_raw data frame_buffer of
             Inl e \<Rightarrow> Inl e
           | Inr fb' \<Rightarrow> Inr (rate_limit_and_apply cfg env now (g\<lparr>g_frame_buffer := fb'\<rparr>) trace)))"

text \<open>
  The decoding step of \<open>handle_datagram\<close> on its own (lines 3426 to 3451): the frame
  buffer after the step and whether the loop goes on to the rate limit (\<open>False\<close> is the
  \<open>continue\<close> of a DDP packet without push and of a rejected raw packet).
\<close>

definition decode_datagram :: "string \<Rightarrow> byte list \<Rightarrow> byte list \<Rightarrow> py_error + (bool \<times> byte list)" where
  "decode_datagram protocol data frame_buffer =
     (if protocol = ''ddp'' \<or> (protocol \<in> {''auto'', ''wled''} \<and> looks_like_ddp data) then
        parse_ddp data frame_buffer
      else if protocol = ''wled'' then
        bindE (parse_wled_or_raw data frame_buffer) (\<lambda>fb'. Inr (True, fb'))
      else if protocol = ''raw'' then
        if length data mod 3 = 0 then
          Inr (True, set_slice frame_buffer 0 (min (length frame_buffer) (length data))
                       (py_slice data 0 (length frame_buffer)))
        else Inr (False, frame_buffer)
      else bindE (parse_wled_or_raw data frame_buffer) (\<lambda>fb'. Inr (True, fb')))"






section \<open>The device mapper\<close>

text \<open>Python indexing with an \<open>int\<close> on a sequence of \<open>n\<close> items: \<open>0 .. n-1\<close> are the
  items themselves, \<open>-n .. -1\<close> count from the end, anything else is out of range.\<close>

definition norm_index :: "nat \<Rightarrow> int \<Rightarrow> nat option" where
  "norm_index n i =
     (if 0 \<le> i \<and> i < int n then Some (nat i)
      else if i < 0 \<and> - int n \<le> i then Some (nat (int n + i))
      else None)"

definition py_index :: "'a list \<Rightarrow> int \<Rightarrow> py_error + 'a" where
  "py_index xs i = (case norm_index (length xs) i of None \<Rightarrow> Inl IndexError | Some j \<Rightarrow> Inr (xs ! j))"

definition py_update :: "'a list \<Rightarrow> int \<Rightarrow> 'a \<Rightarrow> py_error + 'a list" where
  "py_update xs i v =
     (case norm_index (length xs) i of None \<Rightarrow> Inl IndexError | Some j \<Rightarrow> Inr (xs[j := v]))"

text \<open>\<open>str.lower()\<close> on the ASCII strings of the configuration.\<close>

definition lower_char :: "char \<Rightarrow> char" where
  "lower_char c =
     (let n = (of_char c :: nat) in if 65 \<le> n \<and> n \<le> 90 then char_of (n + 32) else c)"

definition py_lower :: "string \<Rightarrow> string" where
  "py_lower s = map lower_char s"

text \<open>\<open>value or default\<close> for an optional string: \<open>None\<close> and the empty string give the
  default.\<close>

definition str_or :: "string option \<Rightarrow> string \<Rightarrow> string" where
  "str_or v d = (case v of None \<Rightarrow> d | Some s \<Rightarrow> if s = [] then d else s)"

type_synonym device_id = string

record led_color =
  c_id :: int
  c_r :: int
  c_g :: int
  c_b :: int
  c_a :: int

text \<open>A map entry is a tuple \<open>(device_id, led_idx)\<close>, \<open>(device_id, led_idx, src_index)\<close> or
  \<open>(device_id, led_idx, src_index, wb)\<close>; \<open>led_idx\<close> is one index or a list of indices.
  The white-balance factors are floats in the source and rationals here.\<close>

datatype led_target = One int | Many "int list"

record map_entry =
  e_device :: device_id
  e_led_idx :: led_target
  e_src_index :: "int option"
  e_wb :: "(rat \<times> rat \<times> rat) option"

text \<open>The mapper's state. \<open>colors_assignable\<close> stands for the SDK binding: whether an
  attribute assignment \<open>color.r = r\<close> on one of its colour objects succeeds.\<close>

record mapper =
  led_colors_by_device :: "device_id \<rightharpoonup> led_color list"
  order_by_device :: "device_id \<rightharpoonup> int list"
  mutable_colors :: bool
  colors_assignable :: bool

subsection \<open>The order of a device\<close>

definition get_device_order :: "mapper \<Rightarrow> device_id \<Rightarrow> int list" where
  "get_device_order m device_id =
     (let order = order_by_device m device_id;
          colors = (case led_colors_by_device m device_id of None \<Rightarrow> [] | Some cs \<Rightarrow> cs)
      in case order of
           Some ord \<Rightarrow>
             if ord \<noteq> [] \<and> length ord = length colors then ord
             else map int [0..<length colors]
         | None \<Rightarrow> map int [0..<length colors])"

text \<open>The LED count of a device: the length of its colour buffer.\<close>

definition led_count :: "mapper \<Rightarrow> device_id \<Rightarrow> nat" where
  "led_count m device_id =
     length (case led_colors_by_device m device_id of None \<Rightarrow> [] | Some cs \<Rightarrow> cs)"

subsection \<open>Composing a frame\<close>

definition wb_scale :: "int \<Rightarrow> rat \<Rightarrow> int" where
  "wb_scale v w = \<lfloor>max 0 (min 255 (of_int v * w))\<rfloor>"

definition entry_rgb ::
  "int list \<Rightarrow> byte list \<Rightarrow> int \<Rightarrow> (rat \<times> rat \<times> rat) option \<Rightarrow> py_error + (int \<times> int \<times> int)" where
  "entry_rgb lut frame_bytes offset wb =
     bindE (if offset + 2 \<ge> int (length frame_bytes) then Inr (0, 0, 0)
            else
              bindE (py_index frame_bytes offset) (\<lambda>x0.
              bindE (get_item lut (unat x0)) (\<lambda>r.
              bindE (py_index frame_bytes (offset + 1)) (\<lambda>x1.
              bindE (get_item lut (unat x1)) (\<lambda>g.
              bindE (py_index frame_bytes (offset + 2)) (\<lambda>x2.
              bindE (get_item lut (unat x2)) (\<lambda>b. Inr (r, g, b))))))))
       (\<lambda>(r, g, b).
          case wb of
            None \<Rightarrow> Inr (r, g, b)
          | Some (wr, wg, wb) \<Rightarrow> Inr (wb_scale r wr, wb_scale g wg, wb_scale b wb))"

definition target_indices :: "led_target \<Rightarrow> int list" where
  "target_indices t = (case t of One i \<Rightarrow> [i] | Many lis \<Rightarrow> lis)"

text \<open>The source offset of an entry and the running index after it.\<close>

definition entry_offset :: "map_entry \<Rightarrow> int \<Rightarrow> int \<times> int" where
  "entry_offset e idx = (case e_src_index e of None \<Rightarrow> (idx, idx + 3) | Some s \<Rightarrow> (s * 3, idx))"

text \<open>The in-place path: the assignments inside the \<open>try\<close>. The first component of the
  result tells whether an exception was raised; colours assigned before it stay
  assigned.\<close>

fun assign_leds :: "mapper \<Rightarrow> device_id \<Rightarrow> int list \<Rightarrow> int \<times> int \<times> int \<Rightarrow> bool \<times> mapper" where
  "assign_leds m dev [] rgb = (False, m)"
| "assign_leds m dev (li # lis) rgb =
     (case led_colors_by_device m dev of
        None \<Rightarrow> (True, m)
      | Some colors \<Rightarrow>
          (case py_index colors li of
             Inl e \<Rightarrow> (True, m)
           | Inr color \<Rightarrow>
               if \<not> colors_assignable m then (True, m)
               else
                 (case py_update colors li
                         (color\<lparr>c_r := fst rgb, c_g := fst (snd rgb), c_b := snd (snd rgb), c_a := 255\<rparr>) of
                    Inl e \<Rightarrow> (True, m)
                  | Inr colors' \<Rightarrow>
                      assign_leds (m\<lparr>led_colors_by_device := (led_colors_by_device m)(dev \<mapsto> colors')\<rparr>)
                        dev lis rgb)))"

text \<open>The loop of the in-place path. An exception of the colour computation is outside
  the \<open>try\<close> and leaves \<open>apply_frame_map\<close>; one inside the \<open>try\<close> clears
  \<open>mutable_colors\<close> and ends the loop.\<close>

fun mutable_pass ::
  "mapper \<Rightarrow> int list \<Rightarrow> byte list \<Rightarrow> map_entry list \<Rightarrow> int \<Rightarrow> py_error option \<times> mapper" where
  "mutable_pass m lut frame_bytes [] idx = (None, m)"
| "mutable_pass m lut frame_bytes (e # es) idx =
     (case entry_rgb lut frame_bytes (fst (entry_offset e idx)) (e_wb e) of
        Inl err \<Rightarrow> (Some err, m)
      | Inr rgb \<Rightarrow>
          (case assign_leds m (e_device e) (target_indices (e_led_idx e)) rgb of
             (True, m') \<Rightarrow> (None, m'\<lparr>mutable_colors := False\<rparr>)
           | (False, m') \<Rightarrow> mutable_pass m' lut frame_bytes es (snd (entry_offset e idx))))"

text \<open>The rebuild path. \<open>_make_color\<close> builds a fresh colour object with alpha 255.\<close>

definition make_color :: "int \<Rightarrow> int \<times> int \<times> int \<Rightarrow> led_color" where
  "make_color led_id rgb =
     \<lparr>c_id = led_id, c_r = fst rgb, c_g = fst (snd rgb), c_b = snd (snd rgb), c_a = 255\<rparr>"

fun rebuild_leds ::
  "led_color list \<Rightarrow> device_id \<Rightarrow> int list \<Rightarrow> int \<times> int \<times> int
     \<Rightarrow> (device_id \<rightharpoonup> led_color option list) \<Rightarrow> py_error + (device_id \<rightharpoonup> led_color option list)" where
  "rebuild_leds colors dev [] rgb rebuilt_map = Inr rebuilt_map"
| "rebuild_leds colors dev (li # lis) rgb rebuilt_map =
     (case py_index colors li of
        Inl e \<Rightarrow> Inl e
      | Inr color \<Rightarrow>
          (case rebuilt_map dev of
             None \<Rightarrow> Inl KeyError
           | Some row \<Rightarrow>
               (case py_update row li (Some (make_color (c_id color) rgb)) of
                  Inl e \<Rightarrow> Inl e
                | Inr row' \<Rightarrow> rebuild_leds colors dev lis rgb (rebuilt_map(dev \<mapsto> row')))))"

fun rebuild_pass ::
  "mapper \<Rightarrow> int list \<Rightarrow> byte list \<Rightarrow> map_entry list \<Rightarrow> int
     \<Rightarrow> (device_id \<rightharpoonup> led_color option list) \<Rightarrow> py_error + (device_id \<rightharpoonup> led_color option list)" where
  "rebuild_pass m lut frame_bytes [] idx rebuilt_map = Inr rebuilt_map"
| "rebuild_pass m lut frame_bytes (e # es) idx rebuilt_map =
     (case entry_rgb lut frame_bytes (fst (entry_offset e idx)) (e_wb e) of
        Inl err \<Rightarrow> Inl err
      | Inr rgb \<Rightarrow>
          (case led_colors_by_device m (e_device e) of
             None \<Rightarrow> Inl KeyError
           | Some colors \<Rightarrow>
               (case rebuild_leds colors (e_device e) (target_indices (e_led_idx e)) rgb rebuilt_map of
                  Inl err \<Rightarrow> Inl err
                | Inr rebuilt_map' \<Rightarrow>
                    rebuild_pass m lut frame_bytes es (snd (entry_offset e idx)) rebuilt_map')))"

text \<open>\<open>rebuilt_map[device_id] = [None] * len(colors)\<close> for every device of the Group.\<close>

definition init_rebuilt_map :: "mapper \<Rightarrow> device_id list \<Rightarrow> (device_id \<rightharpoonup> led_color option list)" where
  "init_rebuilt_map m device_ids =
     fold (\<lambda>d rm. rm(d \<mapsto> replicate (led_count m d) None)) device_ids Map.empty"

text \<open>The rebuilt rows replace the colour buffers; a slot that no entry wrote keeps the
  existing colour. A row has the length of the device's existing buffer.\<close>

definition fill_row :: "led_color option list \<Rightarrow> led_color list \<Rightarrow> led_color list" where
  "fill_row row existing = map (\<lambda>(n, old). case n of None \<Rightarrow> old | Some c \<Rightarrow> c) (zip row existing)"

definition install_rebuilt ::
  "mapper \<Rightarrow> device_id list \<Rightarrow> (device_id \<rightharpoonup> led_color option list) \<Rightarrow> mapper" where
  "install_rebuilt m device_ids rebuilt_map =
     fold (\<lambda>d m'.
            case rebuilt_map d of
              None \<Rightarrow> m'
            | Some row \<Rightarrow>
                if row = [] then m'
                else m'\<lparr>led_colors_by_device := (led_colors_by_device m')(d \<mapsto>
                        fill_row row (case led_colors_by_device m' d of None \<Rightarrow> [] | Some cs \<Rightarrow> cs))\<rparr>)
       (remdups device_ids) m"

text \<open>Lines 1529 to 1620: the in-place path when \<open>mutable_colors\<close> holds, then the rebuild
  path when it does not (any more).\<close>

definition compose_colors ::
  "mapper \<Rightarrow> map_entry list \<Rightarrow> device_id list \<Rightarrow> byte list \<Rightarrow> int list \<Rightarrow> py_error option \<times> mapper" where
  "compose_colors m map_list device_ids frame_bytes lut =
     (let (err1, m1) = (if mutable_colors m then mutable_pass m lut frame_bytes map_list 0 else (None, m))
      in if err1 \<noteq> None then (err1, m1)
         else if \<not> mutable_colors m1 then
           (case rebuild_pass m1 lut frame_bytes map_list 0 (init_rebuilt_map m1 device_ids) of
              Inl err \<Rightarrow> (Some err, m1)
            | Inr rebuilt_map \<Rightarrow> (None, install_rebuilt m1 device_ids rebuilt_map))
         else (None, m1))"

subsection \<open>Pushing the colours to the devices\<close>

text \<open>
  The SDK is the environment. \<open>_try_set_direct\<close> and \<open>_try_set_buffer\<close> turn the SDK's
  answer (an error code or an exception) into a success flag; the oracle gives that flag
  for the next write from the history of SDK calls so far and the arguments of the call.
  Every call is appended to the history. \<open>sdk.flush()\<close> catches its own exceptions.
\<close>

datatype write_kind = Direct | Buffered

datatype sdk_event = Write write_kind device_id "led_color list" bool | Flush

type_synonym sdk_oracle = "sdk_event list \<Rightarrow> write_kind \<Rightarrow> device_id \<Rightarrow> led_color list \<Rightarrow> bool"

fun write_succeeded :: "sdk_event \<Rightarrow> bool" where
  "write_succeeded (Write k d cs ok) = ok"
| "write_succeeded Flush = False"

definition try_set ::
  "sdk_oracle \<Rightarrow> write_kind \<Rightarrow> device_id \<Rightarrow> led_color list \<Rightarrow> sdk_event list \<Rightarrow> bool \<times> sdk_event list" where
  "try_set sdk kind dev colors history =
     (let ok = sdk history kind dev colors in (ok, history @ [Write kind dev colors ok]))"

text \<open>\<open>update_mode == "direct"\<close>, and the safety-net loop of \<open>"buffer_safe"\<close>.\<close>

fun direct_loop ::
  "sdk_oracle \<Rightarrow> mapper \<Rightarrow> device_id list \<Rightarrow> bool \<Rightarrow> sdk_event list \<Rightarrow> bool \<times> sdk_event list" where
  "direct_loop sdk m [] any_ok history = (any_ok, history)"
| "direct_loop sdk m (d # ds) any_ok history =
     (case led_colors_by_device m d of
        None \<Rightarrow> direct_loop sdk m ds any_ok history
      | Some colors \<Rightarrow>
          if colors = [] then direct_loop sdk m ds any_ok history
          else
            (case try_set sdk Direct d colors history of
               (okd, h1) \<Rightarrow> direct_loop sdk m ds (any_ok \<or> okd) h1))"

text \<open>\<open>update_mode in ("buffer", "buffer_safe")\<close>: buffered write, direct write when it
  fails. The result is \<open>(any_ok, used_buffer, history)\<close>.\<close>

fun buffer_loop ::
  "sdk_oracle \<Rightarrow> mapper \<Rightarrow> device_id list \<Rightarrow> bool \<Rightarrow> bool \<Rightarrow> sdk_event list
     \<Rightarrow> bool \<times> bool \<times> sdk_event list" where
  "buffer_loop sdk m [] any_ok used_buffer history = (any_ok, used_buffer, history)"
| "buffer_loop sdk m (d # ds) any_ok used_buffer history =
     (case led_colors_by_device m d of
        None \<Rightarrow> buffer_loop sdk m ds any_ok used_buffer history
      | Some colors \<Rightarrow>
          if colors = [] then buffer_loop sdk m ds any_ok used_buffer history
          else
            (case try_set sdk Buffered d colors history of
               (okb, h1) \<Rightarrow>
                 if okb then buffer_loop sdk m ds True True h1
                 else
                   (case try_set sdk Direct d colors h1 of
                      (okd, h2) \<Rightarrow> buffer_loop sdk m ds (any_ok \<or> okd) used_buffer h2)))"

text \<open>Any other mode (\<open>"auto"\<close>): direct write, buffered write when it fails.\<close>

fun auto_loop ::
  "sdk_oracle \<Rightarrow> mapper \<Rightarrow> device_id list \<Rightarrow> bool \<Rightarrow> bool \<Rightarrow> sdk_event list
     \<Rightarrow> bool \<times> bool \<times> sdk_event list" where
  "auto_loop sdk m [] any_ok used_buffer history = (any_ok, used_buffer, history)"
| "auto_loop sdk m (d # ds) any_ok used_buffer history =
     (case led_colors_by_device m d of
        None \<Rightarrow> auto_loop sdk m ds any_ok used_buffer history
      | Some colors \<Rightarrow>
          if colors = [] then auto_loop sdk m ds any_ok used_buffer history
          else
            (case try_set sdk Direct d colors history of
               (okd, h1) \<Rightarrow>
                 if okd then auto_loop sdk m ds True used_buffer h1
                 else
                   (case try_set sdk Buffered d colors h1 of
                      (okb, h2) \<Rightarrow>
                        if okb then auto_loop sdk m ds True True h2
                        else auto_loop sdk m ds any_ok used_buffer h2)))"

definition flush_if :: "bool \<Rightarrow> sdk_event list \<Rightarrow> sdk_event list" where
  "flush_if used_buffer history = (if used_buffer then history @ [Flush] else history)"

text \<open>Lines 1622 to 1681, with \<open>any_ok = False\<close> on entry.\<close>

definition push_colors ::
  "sdk_oracle \<Rightarrow> mapper \<Rightarrow> device_id list \<Rightarrow> string option \<Rightarrow> sdk_event list \<Rightarrow> bool \<times> sdk_event list" where
  "push_colors sdk m device_ids update_mode history =
     (let mode = py_lower (str_or update_mode ''auto'') in
      if mode = ''direct'' then direct_loop sdk m device_ids False history
      else if mode \<in> {''buffer'', ''buffer_safe''} then
        (case buffer_loop sdk m device_ids False False history of
           (any_ok, used_buffer, h1) \<Rightarrow>
             if mode = ''buffer_safe''
             then direct_loop sdk m device_ids any_ok (flush_if used_buffer h1)
             else (any_ok, flush_if used_buffer h1))
      else
        (case auto_loop sdk m device_ids False False history of
           (any_ok, used_buffer, h1) \<Rightarrow> (any_ok, flush_if used_buffer h1)))"

text \<open>
  \<open>apply_frame_map\<close>. The result is the returned flag or the exception raised, with the
  mapper and the SDK history as the call leaves them (an exception does not undo what was
  done before it). \<open>lut=None\<close> is the identity table.
\<close>

definition apply_frame_map ::
  "sdk_oracle \<Rightarrow> mapper \<Rightarrow> map_entry list \<Rightarrow> device_id list \<Rightarrow> byte list \<Rightarrow> int list option
     \<Rightarrow> string option \<Rightarrow> sdk_event list \<Rightarrow> (py_error + bool) \<times> mapper \<times> sdk_event list" where
  "apply_frame_map sdk m map_list device_ids frame_bytes lut update_mode history =
     (if map_list = [] then (Inr False, m, history)
      else
        let lut' = (case lut of None \<Rightarrow> map int [0..<256] | Some l \<Rightarrow> l)
        in case compose_colors m map_list device_ids frame_bytes lut' of
             (Some err, m1) \<Rightarrow> (Inl err, m1, history)
           | (None, m1) \<Rightarrow>
               (case push_colors sdk m1 device_ids update_mode history of
                  (any_ok, h1) \<Rightarrow> (Inr any_ok, m1, h1)))"

section \<open>The geometric ordering engine: serpentine order\<close>

text \<open>
  LED coordinates are floats in the source and rationals here: the model computes what
  the code computes wherever the differences the code forms are exact in floating point,
  as they are for small integer coordinates. A position is the dict
  \<open>{"id", "x", "y"}\<close>, with \<open>x\<close> or \<open>y\<close> possibly \<open>None\<close>; a point is the tuple
  \<open>(idx, fx, fy)\<close>. \<open>_cluster_rows\<close> (one-dimensional k-means, used only when
  \<open>rows_count\<close> is given and above 1) is a parameter of the model.
\<close>

record led_pos =
  pos_id :: int
  pos_x :: "rat option"
  pos_y :: "rat option"

type_synonym point = "nat \<times> rat \<times> rat"

definition pt_idx :: "point \<Rightarrow> nat" where "pt_idx p = fst p"
definition pt_x :: "point \<Rightarrow> rat" where "pt_x p = fst (snd p)"
definition pt_y :: "point \<Rightarrow> rat" where "pt_y p = snd (snd p)"

text \<open>The loop building \<open>points\<close>; \<open>None\<close> when a coordinate is missing.\<close>

fun build_points :: "bool \<Rightarrow> bool \<Rightarrow> bool \<Rightarrow> nat \<Rightarrow> led_pos list \<Rightarrow> point list option" where
  "build_points flip_x flip_y swap_xy idx [] = Some []"
| "build_points flip_x flip_y swap_xy idx (pos # rest) =
     (case (pos_x pos, pos_y pos) of
        (Some x, Some y) \<Rightarrow>
          (let fx = (if flip_x then - x else x);
               fy = (if flip_y then - y else y);
               pt = (if swap_xy then (idx, fy, fx) else (idx, fx, fy))
           in case build_points flip_x flip_y swap_xy (idx + 1) rest of
                None \<Rightarrow> None
              | Some pts \<Rightarrow> Some (pt # pts))
      | _ \<Rightarrow> None)"

text \<open>The smallest positive gap between consecutive sorted distinct Y values.\<close>

fun min_positive_diff :: "rat list \<Rightarrow> rat option \<Rightarrow> rat option" where
  "min_positive_diff (a # b # ys) min_diff =
     (let d = b - a
      in min_positive_diff (b # ys)
           (case min_diff of
              None \<Rightarrow> if d > 0 then Some d else None
            | Some md \<Rightarrow> if d > 0 \<and> d < md then Some d else Some md))"
| "min_positive_diff ys min_diff = min_diff"

definition row_tol :: "rat option \<Rightarrow> rat list \<Rightarrow> rat" where
  "row_tol row_tolerance ys =
     (let auto_tol =
            (if length ys \<le> 1 then 1
             else
               (case min_positive_diff ys None of
                  None \<Rightarrow> 1
                | Some min_diff \<Rightarrow> if min_diff \<noteq> 0 then min_diff / 2 else 1))
      in case row_tolerance of
           None \<Rightarrow> auto_tol
         | Some t \<Rightarrow> if t \<le> 0 then auto_tol else t)"

text \<open>The sweep over the sorted points: a point joins the current row when its Y is
  within the tolerance of the row's first Y.\<close>

fun sweep_rows :: "rat \<Rightarrow> point list \<Rightarrow> point list list \<Rightarrow> point list \<Rightarrow> rat option \<Rightarrow> point list list" where
  "sweep_rows tol [] rows current current_y = (if current \<noteq> [] then rows @ [current] else rows)"
| "sweep_rows tol (p # ps) rows current current_y =
     (case current_y of
        None \<Rightarrow> sweep_rows tol ps rows [p] (Some (pt_y p))
      | Some cy \<Rightarrow>
          if \<bar>pt_y p - cy\<bar> \<le> tol then sweep_rows tol ps rows (current @ [p]) (Some cy)
          else sweep_rows tol ps (rows @ [current]) [p] (Some (pt_y p)))"

text \<open>The final loop: each row sorted by X (stable, as Python's \<open>sorted\<close>; \<open>reverse=True\<close>
  keeps the order of equal keys too), its direction from the row index.\<close>

fun emit_rows :: "string \<Rightarrow> string \<Rightarrow> nat \<Rightarrow> point list list \<Rightarrow> int list" where
  "emit_rows first_dir mode idx_row [] = []"
| "emit_rows first_dir mode idx_row (row # rows) =
     (let reverse = (if mode = ''linear'' then first_dir = ''right''
                     else if first_dir = ''right'' then idx_row mod 2 = 0
                     else idx_row mod 2 = 1);
          row_sorted = (if reverse then sort_key (\<lambda>p. - pt_x p) row else sort_key pt_x row)
      in map (\<lambda>p. int (pt_idx p)) row_sorted @ emit_rows first_dir mode (idx_row + 1) rows)"

definition compute_serpentine_order ::
  "(point list \<Rightarrow> int \<Rightarrow> point list list) \<Rightarrow> led_pos list \<Rightarrow> rat option \<Rightarrow> string option
     \<Rightarrow> string option \<Rightarrow> int option \<Rightarrow> bool \<Rightarrow> bool \<Rightarrow> bool \<Rightarrow> string option \<Rightarrow> int list option" where
  "compute_serpentine_order cluster_rows positions row_tolerance first_dir row_order rows_count
       flip_x flip_y swap_xy mode =
     (if positions = [] then None
      else
        case build_points flip_x flip_y swap_xy 0 positions of
          None \<Rightarrow> None
        | Some points \<Rightarrow>
            let rows0 = (case rows_count of
                           None \<Rightarrow> []
                         | Some k \<Rightarrow> if k \<noteq> 0 \<and> k > 1 then cluster_rows points k else []);
                rows =
                  (if rows0 = [] then
                     let ys = sort (remdups (map pt_y points));
                         tol = row_tol row_tolerance ys;
                         row_order_val = py_lower (str_or row_order ''top'');
                         sorted_points =
                           (if row_order_val = ''bottom''
                            then sort_key (\<lambda>p. (- pt_y p, pt_x p)) points
                            else sort_key (\<lambda>p. (pt_y p, pt_x p)) points)
                     in sweep_rows tol sorted_points [] [] None
                   else rows0)
            in Some (emit_rows (py_lower (str_or first_dir ''left'')) (py_lower (str_or mode ''serpentine''))
                       0 rows))"

section \<open>Derived notions and example states\<close>

text \<open>
  The definitions of this section are not functions of the source: they name conditions
  and concrete states that the statements below use.
\<close>

text \<open>The \<open>ddp_auto\<close> flag, set on a \<open>"wled"\<close> Group at its first DDP-like datagram; it
  only gates the log line "DDP detecte ...".\<close>

definition mark_ddp_auto :: "byte list \<Rightarrow> group \<Rightarrow> group" where
  "mark_ddp_auto data g =
     (if g_protocol g = ''wled'' \<and> looks_like_ddp data \<and> \<not> g_ddp_auto g
      then g\<lparr>g_ddp_auto := True\<rparr> else g)"



text \<open>"Returns normally with a buffer of the same length", as a predicate on results.\<close>

definition same_len_ok :: "byte list \<Rightarrow> py_error + byte list \<Rightarrow> bool" where
  "same_len_ok fb r = (\<exists>fb'. r = Inr fb' \<and> length fb' = length fb)"

text \<open>The default configuration (60 frames per second, idle clear after one second,
  keepalive every 30 seconds) in \<open>unique\<close> mode, and a Group of two LEDs as
  \<open>setup_runtime\<close> leaves it at time 10.\<close>

definition example_cfg :: loop_cfg where
  "example_cfg = \<lparr>max_fps = 60, apply_fail_threshold = 6, debug_udp = False,
     unique_idle_clear_enabled = True, unique_idle_clear_s = 1, keepalive_interval = 30\<rparr>"

definition example_group :: "string \<Rightarrow> group" where
  "example_group proto =
     \<lparr>g_name = ''leds'', g_protocol = proto, g_frame_buffer = [0, 0, 0, 0, 0, 0],
      g_last_send = 10, g_first_packet = True, g_pkt_count = 0, g_byte_count = 0,
      g_last_packet_ts = 0, g_fail_count = 0, g_idle_cleared = False,
      g_idle_clear_disabled = False, g_idle_clear_seconds = None,
      g_keepalive_interval = None, g_ddp_auto = False\<rparr>"

text \<open>The same Group after a DDP datagram with payload 7, 8, 9 was received and applied
  at time 11.\<close>

definition example_group_lit :: "string \<Rightarrow> group" where
  "example_group_lit proto =
     (example_group proto)\<lparr>g_frame_buffer := [7, 8, 9, 0, 0, 0], g_last_send := 11,
        g_first_packet := False, g_last_packet_ts := 11\<rparr>"

text \<open>Two environments: every \<open>apply_frame_map\<close> call succeeds, or none does.\<close>

definition always_applied :: "nat \<Rightarrow> apply_outcome" where
  "always_applied n = Applied"


text \<open>A mapper with one keyboard of two LEDs and one fan without LEDs; an SDK whose
  direct writes fail and whose buffered writes succeed; one whose writes all fail.\<close>

definition example_mapper :: mapper where
  "example_mapper =
     \<lparr>led_colors_by_device =
        [''kbd'' \<mapsto> [\<lparr>c_id = 101, c_r = 0, c_g = 0, c_b = 0, c_a = 255\<rparr>,
                     \<lparr>c_id = 102, c_r = 0, c_g = 0, c_b = 0, c_a = 255\<rparr>],
         ''fan'' \<mapsto> []],
      order_by_device = [''kbd'' \<mapsto> [1, 0], ''fan'' \<mapsto> [0, 1, 2]],
      mutable_colors = True, colors_assignable = True\<rparr>"

definition example_map :: "map_entry list" where
  "example_map =
     [\<lparr>e_device = ''kbd'', e_led_idx = One 1, e_src_index = None, e_wb = None\<rparr>,
      \<lparr>e_device = ''kbd'', e_led_idx = One 0, e_src_index = None, e_wb = None\<rparr>]"

definition buffered_only_sdk :: sdk_oracle where
  "buffered_only_sdk history kind dev colors = (kind = Buffered)"

definition failing_sdk :: sdk_oracle where
  "failing_sdk history kind dev colors = False"

text \<open>A row clustering that finds no rows.\<close>

definition no_clusters :: "point list \<Rightarrow> int \<Rightarrow> point list list" where
  "no_clusters points k = []"

text \<open>The four LED positions \<open>(0,0), (1,0), (0,1), (1,1)\<close>, in that index order.\<close>

definition four_positions :: "led_pos list" where
  "four_positions =
     [\<lparr>pos_id = 1, pos_x = Some 0, pos_y = Some 0\<rparr>,
      \<lparr>pos_id = 2, pos_x = Some 1, pos_y = Some 0\<rparr>,
      \<lparr>pos_id = 3, pos_x = Some 0, pos_y = Some 1\<rparr>,
      \<lparr>pos_id = 4, pos_x = Some 1, pos_y = Some 1\<rparr>]"

section \<open>Verification: the protocol decoders\<close>

subsection \<open>Buffer lengths\<close>

lemma length_set_slice:
  "length (set_slice xs a b ys) =
     min a (length xs) + length ys + (length xs - max (min a (length xs)) (min b (length xs)))"
  unfolding set_slice_def Let_def length_append length_take length_drop by arith

lemma length_clear_tail: "length (clear_tail fb s) = length fb"
  by (simp add: clear_tail_def length_set_slice)

lemma length_copy_and_clear: "length (copy_and_clear p fb) = length fb"
  by (simp add: copy_and_clear_def Let_def length_clear_tail length_set_slice py_slice_def)

lemma write_rgb_ok:
  assumes "offset + 2 < length fb" "i + 2 < length payload"
  shows "\<exists>fb'. write_rgb fb offset payload i = Inr fb' \<and> length fb' = length fb"
  using assms by (simp add: write_rgb_def bindE_def get_item_def set_item_def)

lemma warls_loop_ok:
  "\<exists>fb'. warls_loop payload i fb = Inr fb' \<and> length fb' = length fb"
proof (induction payload i fb rule: warls_loop.induct)
  case (1 payload i fb)
  show ?case
  proof (cases "i \<ge> length payload \<or> i + 3 \<ge> length payload")
    case True
    then show ?thesis by (subst warls_loop.simps) auto
  next
    case False
    then have g: "get_item payload i = Inr (payload ! i)" by (simp add: get_item_def)
    show ?thesis
    proof (cases "unat (payload ! i) * 3 + 2 \<ge> length fb")
      case True
      with False g 1(1)[of "payload ! i"] show ?thesis
        by (subst warls_loop.simps) simp
    next
      case out: False
      from write_rgb_ok[of "unat (payload ! i) * 3" fb "i + 1" payload] False out
      obtain fb' where w: "write_rgb fb (unat (payload ! i) * 3) payload (i + 1) = Inr fb'"
        and l: "length fb' = length fb" by auto
      from 1(2)[of "payload ! i" fb'] False g out w l show ?thesis
        by (subst warls_loop.simps) simp
    qed
  qed
qed

lemma drgbw_loop_ok:
  "\<exists>fb'. drgbw_loop payload i out fb = Inr fb' \<and> length fb' = length fb"
proof (induction payload i out fb rule: drgbw_loop.induct)
  case (1 payload i out fb)
  show ?case
  proof (cases "i \<ge> length payload \<or> i + 2 \<ge> length payload \<or> out + 2 \<ge> length fb")
    case True
    then show ?thesis by (subst drgbw_loop.simps) auto
  next
    case False
    from write_rgb_ok[of out fb i payload] False
    obtain fb' where w: "write_rgb fb out payload i = Inr fb'"
      and l: "length fb' = length fb" by auto
    from 1[of fb'] False w l show ?thesis
      by (subst drgbw_loop.simps) simp
  qed
qed

lemma dnrgb_loop_ok:
  "\<exists>fb'. dnrgb_loop payload start i fb = Inr fb' \<and> length fb' = length fb"
proof (induction payload start i fb rule: dnrgb_loop.induct)
  case (1 payload start i fb)
  show ?case
  proof (cases "i \<ge> length payload \<or> i + 2 \<ge> length payload
                  \<or> (start + i div 3) * 3 + 2 \<ge> length fb")
    case True
    then show ?thesis by (subst dnrgb_loop.simps) (auto simp: Let_def)
  next
    case False
    from write_rgb_ok[of "(start + i div 3) * 3" fb i payload] False
    obtain fb' where w: "write_rgb fb ((start + i div 3) * 3) payload i = Inr fb'"
      and l: "length fb' = length fb" by auto
    from 1[OF _ refl refl, of fb'] False w l show ?thesis
      by (subst dnrgb_loop.simps) (simp add: Let_def)
  qed
qed

lemma same_len_ok_Inr: "length fb' = length fb \<Longrightarrow> same_len_ok fb (Inr fb')"
  by (simp add: same_len_ok_def)

lemma same_len_ok_if:
  "(c \<Longrightarrow> same_len_ok fb a) \<Longrightarrow> (\<not> c \<Longrightarrow> same_len_ok fb b) \<Longrightarrow> same_len_ok fb (if c then a else b)"
  by simp

lemma same_len_ok_get:
  "i < length xs \<Longrightarrow> (\<And>x. same_len_ok fb (f x)) \<Longrightarrow> same_len_ok fb (bindE (get_item xs i) f)"
  by (simp add: bindE_def get_item_def)

lemma same_len_ok_loops:
  "same_len_ok fb (warls_loop p i fb)"
  "same_len_ok fb (drgbw_loop p i out fb)"
  "same_len_ok fb (dnrgb_loop p s i fb)"
  unfolding same_len_ok_def by (rule warls_loop_ok drgbw_loop_ok dnrgb_loop_ok)+

lemma parse_wled_or_raw_same_len: "same_len_ok fb (parse_wled_or_raw data fb)"
  unfolding parse_wled_or_raw_def
  by (intro same_len_ok_if same_len_ok_get same_len_ok_Inr same_len_ok_loops
        length_copy_and_clear refl) simp_all

lemma parse_wled_or_raw_ok:
  "\<exists>fb'. parse_wled_or_raw data fb = Inr fb' \<and> length fb' = length fb"
  using parse_wled_or_raw_same_len[of fb data] by (simp add: same_len_ok_def)

lemma ddp_write_len:
  assumes "off < length fb"
  shows "length (set_slice fb off (min (length fb) (off + length p))
           (take (min (length fb) (off + length p) - off) p)) = length fb"
  using assms unfolding length_set_slice length_take by arith

lemma ddp_tail:
  "\<exists>push' fb'.
     (if off < length fb
      then Inr (push, set_slice fb off (min (length fb) (off + length p))
                 (take (min (length fb) (off + length p) - off) p))
      else Inr (push, fb)) = (Inr (push', fb') :: py_error + bool \<times> byte list) \<and>
     length fb' = length fb"
  by (simp add: ddp_write_len)

lemma parse_ddp_ok:
  assumes "data \<noteq> []"
  shows "\<exists>push fb'. parse_ddp data fb = Inr (push, fb') \<and> length fb' = length fb"
proof -
  from assms have g: "get_item data 0 = Inr (data ! 0)" by (simp add: get_item_def)
  show ?thesis
    unfolding parse_ddp_def g sum.case Let_def
    by (rule ddp_tail)
qed

lemma parse_ddp_empty: "parse_ddp [] fb = Inl IndexError"
  by (simp add: parse_ddp_def get_item_def)

subsection \<open>C1: what the classifier accepts\<close>

text \<open>
  C1, as stated: every datagram of at least the header length whose version bits are not
  00 is recognized, whatever its declared length. This fails on the code: a 10-byte
  datagram with version bits 01, no timecode flag and declared length 5 has a header of
  10 bytes and no payload, and is rejected, because the declared length exceeds the
  payload.
\<close>

theorem C1_counterexample:
  "ddp_header_len [0x40, 0, 0, 0, 0, 0, 0, 0, 0, 5] \<le> length [0x40, 0, 0, 0, 0, 0, 0, 0, 0, 5 :: byte]
   \<and> ddp_version [0x40, 0, 0, 0, 0, 0, 0, 0, 0, 5] \<noteq> 0
   \<and> ddp_declared_len [0x40, 0, 0, 0, 0, 0, 0, 0, 0, 5] = 5
   \<and> \<not> looks_like_ddp [0x40, 0, 0, 0, 0, 0, 0, 0, 0, 5]"
  by (simp add: looks_like_ddp_def ddp_header_len_def ddp_version_def ddp_declared_len_def
        py_slice_def from_bytes_big_def)

text \<open>
  C1, amended: \<open>looks_like_ddp\<close> recognizes a datagram exactly when it has at least 10
  bytes and at least the header length (14 with the timecode flag 0x10, else 10), its
  version bits are not 00, and its declared length (bytes 8 to 10, big-endian) is zero or
  at most the number of bytes after the header. The push bit plays no part, and a
  datagram whose version bits are 00 is never recognized.
\<close>

theorem C1_looks_like_ddp_iff:
  "looks_like_ddp data \<longleftrightarrow>
     10 \<le> length data \<and> ddp_header_len data \<le> length data \<and> ddp_version data \<noteq> 0 \<and>
     (ddp_declared_len data = 0 \<or> ddp_declared_len data \<le> length data - ddp_header_len data)"
  unfolding looks_like_ddp_def ddp_version_def ddp_header_len_def ddp_declared_len_def Let_def
  by (cases "data ! 0 AND 0x10 = 0") auto

text \<open>
  Witness for C1: through the theorem, a 13-byte datagram with version bits 01 and declared
  length 3 is recognized with the push bit set and with it clear, and the same bytes with
  version bits 00 are not.
\<close>

theorem C1_looks_like_ddp_iff_witness:
  "looks_like_ddp [0x41, 0, 0, 0, 0, 0, 0, 0, 0, 3, 1, 2, 3]
   \<and> looks_like_ddp [0x40, 0, 0, 0, 0, 0, 0, 0, 0, 3, 1, 2, 3]
   \<and> \<not> looks_like_ddp [0x01, 0, 0, 0, 0, 0, 0, 0, 0, 3, 1, 2, 3]"
  using C1_looks_like_ddp_iff [of "[0x41, 0, 0, 0, 0, 0, 0, 0, 0, 3, 1, 2, 3]"]
    C1_looks_like_ddp_iff [of "[0x40, 0, 0, 0, 0, 0, 0, 0, 0, 3, 1, 2, 3]"]
    C1_looks_like_ddp_iff [of "[0x01, 0, 0, 0, 0, 0, 0, 0, 0, 3, 1, 2, 3]"]
  by (simp add: ddp_header_len_def ddp_version_def ddp_declared_len_def
        py_slice_def from_bytes_big_def)

subsection \<open>C10: the decoders are total and keep the buffer's length\<close>

text \<open>
  C10: for every payload and every frame buffer, \<open>parse_wled_or_raw\<close> returns normally
  (no read or write out of range is attempted) with a buffer of the same length, and so
  does \<open>parse_ddp\<close> for every payload of at least 10 bytes. In the model an item
  assignment out of range is an IndexError and a slice assignment of another length
  changes the buffer's length, so the result says that every write lands inside the
  buffer or is skipped or clipped.
\<close>

theorem C10_decoders_total:
  "(\<exists>fb'. parse_wled_or_raw data fb = Inr fb' \<and> length fb' = length fb) \<and>
   (10 \<le> length data \<longrightarrow>
      (\<exists>push fb'. parse_ddp data fb = Inr (push, fb') \<and> length fb' = length fb))"
proof
  show "\<exists>fb'. parse_wled_or_raw data fb = Inr fb' \<and> length fb' = length fb"
    by (rule parse_wled_or_raw_ok)
  show "10 \<le> length data \<longrightarrow>
      (\<exists>push fb'. parse_ddp data fb = Inr (push, fb') \<and> length fb' = length fb)"
  proof
    assume "10 \<le> length data"
    then have "data \<noteq> []" by auto
    then show "\<exists>push fb'. parse_ddp data fb = Inr (push, fb') \<and> length fb' = length fb"
      by (rule parse_ddp_ok)
  qed
qed

text \<open>
  Witness for C10: a 16-byte DDP datagram (offset 3, declared length 6) into a 6-byte
  buffer, where the payload is clipped at the end of the buffer, and a sparse
  notification packet whose second quad addresses a pixel outside the buffer.
\<close>

theorem C10_decoders_total_witness:
  "10 \<le> length [0x41, 0, 0, 0, 0, 0, 0, 3, 0, 6, 1, 2, 3, 4, 5, 6 :: byte]
   \<and> (\<exists>push fb'. parse_ddp [0x41, 0, 0, 0, 0, 0, 0, 3, 0, 6, 1, 2, 3, 4, 5, 6]
                    [9, 9, 9, 9, 9, 9] = Inr (push, fb') \<and> length fb' = Suc (Suc (Suc (Suc (Suc (Suc 0))))))
   \<and> (\<exists>fb'. parse_wled_or_raw [1, 0, 0, 7, 8, 9, 200, 1, 2, 3] [9, 9, 9, 9, 9, 9] = Inr fb'
              \<and> length fb' = Suc (Suc (Suc (Suc (Suc (Suc 0))))))"
  using C10_decoders_total [of "[0x41, 0, 0, 0, 0, 0, 0, 3, 0, 6, 1, 2, 3, 4, 5, 6]" "[9, 9, 9, 9, 9, 9]"]
    C10_decoders_total [of "[1, 0, 0, 7, 8, 9, 200, 1, 2, 3]" "[9, 9, 9, 9, 9, 9]"]
  by simp

section \<open>Verification: the runtime loop\<close>

subsection \<open>The steps of the datagram handler\<close>

lemma note_datagram_fields [simp]:
  "g_protocol (note_datagram cfg now data g) = g_protocol g"
  "g_frame_buffer (note_datagram cfg now data g) = g_frame_buffer g"
  "g_last_send (note_datagram cfg now data g) = g_last_send g"
  "g_name (note_datagram cfg now data g) = g_name g"
  "g_ddp_auto (note_datagram cfg now data g) = g_ddp_auto g"
  "g_idle_cleared (note_datagram cfg now data g) = False"
  "g_last_packet_ts (note_datagram cfg now data g) = now"
  by (simp_all add: note_datagram_def Let_def)

lemma mark_ddp_auto_fields [simp]:
  "g_protocol (mark_ddp_auto data g) = g_protocol g"
  "g_frame_buffer (mark_ddp_auto data g) = g_frame_buffer g"
  "g_last_send (mark_ddp_auto data g) = g_last_send g"
  "g_name (mark_ddp_auto data g) = g_name g"
  "g_idle_cleared (mark_ddp_auto data g) = g_idle_cleared g"
  "g_last_packet_ts (mark_ddp_auto data g) = g_last_packet_ts g"
  by (simp_all add: mark_ddp_auto_def)

text \<open>The handler is the bookkeeping, the decoding step, and then either \<open>continue\<close> or
  the rate limit and the application.\<close>

lemma handle_datagram_via_decode:
  "handle_datagram cfg env now data g0 trace =
     (case decode_datagram (g_protocol g0) data (g_frame_buffer g0) of
        Inl e \<Rightarrow> Inl e
      | Inr (emit, fb') \<Rightarrow>
          if emit
          then Inr (rate_limit_and_apply cfg env now
                      ((mark_ddp_auto data (note_datagram cfg now data g0))\<lparr>g_frame_buffer := fb'\<rparr>) trace)
          else Inr ((mark_ddp_auto data (note_datagram cfg now data g0))\<lparr>g_frame_buffer := fb'\<rparr>, trace))"
  unfolding handle_datagram_def decode_datagram_def mark_ddp_auto_def Let_def
  by (auto simp: bindE_def split: sum.splits prod.splits)

lemma rate_limit_and_apply_fst:
  "g_protocol (fst (rate_limit_and_apply cfg env now g trace)) = g_protocol g"
  "g_frame_buffer (fst (rate_limit_and_apply cfg env now g trace)) = g_frame_buffer g"
  "g_idle_cleared (fst (rate_limit_and_apply cfg env now g trace)) = g_idle_cleared g"
  "g_last_packet_ts (fst (rate_limit_and_apply cfg env now g trace)) = g_last_packet_ts g"
  by (simp_all add: rate_limit_and_apply_def call_apply_frame_map_def Let_def
      split: apply_outcome.split)

lemma rate_limit_and_apply_keeps:
  assumes "rate_limit_and_apply cfg env now g trace = (g', trace')"
  shows "g_protocol g' = g_protocol g" "g_frame_buffer g' = g_frame_buffer g"
    "g_idle_cleared g' = g_idle_cleared g" "g_last_packet_ts g' = g_last_packet_ts g"
  using rate_limit_and_apply_fst[of cfg env now g trace]
  unfolding assms by simp_all

lemma rate_limited_skip:
  assumes "max_fps cfg > 0" "now - g_last_send g < 1 / max_fps cfg"
  shows "rate_limit_and_apply cfg env now g trace = (g, trace)"
  using assms by (simp add: rate_limit_and_apply_def min_interval_def)



subsection \<open>C3: a raw datagram whose length is not a multiple of 3\<close>

text \<open>
  C3: when the Group's protocol is \<open>"raw"\<close> and the datagram's length is not a multiple
  of 3, the handler returns with the effect trace unchanged (no \<open>apply_frame_map\<close> call,
  no reconnect attempt) and a Group that differs from the one before only by the
  bookkeeping of a received datagram; its frame buffer is the same list of bytes.
\<close>

theorem C3_raw_bad_length_ignored:
  assumes "g_protocol g = ''raw''" "length data mod 3 \<noteq> 0"
  shows "handle_datagram cfg env now data g trace = Inr (note_datagram cfg now data g, trace)
         \<and> g_frame_buffer (note_datagram cfg now data g) = g_frame_buffer g"
  using assms by (simp add: handle_datagram_def Let_def)

text \<open>Witness for C3: four bytes for a raw Group whose buffer holds 7, 8, 9, 0, 0, 0,
  after earlier effects.\<close>

theorem C3_raw_bad_length_ignored_witness:
  "g_protocol (example_group_lit ''raw'') = ''raw'' \<and> length [1, 2, 3, 4 :: byte] mod 3 \<noteq> 0
   \<and> handle_datagram example_cfg always_applied 12 [1, 2, 3, 4] (example_group_lit ''raw'')
        [ApplyFrameMap ''leds'' [7, 8, 9, 0, 0, 0]]
      = Inr (note_datagram example_cfg 12 [1, 2, 3, 4] (example_group_lit ''raw''),
             [ApplyFrameMap ''leds'' [7, 8, 9, 0, 0, 0]])
   \<and> g_frame_buffer (note_datagram example_cfg 12 [1, 2, 3, 4] (example_group_lit ''raw''))
      = [7, 8, 9, 0, 0, 0]"
  using C3_raw_bad_length_ignored [of "example_group_lit ''raw''" "[1, 2, 3, 4]" example_cfg
      always_applied 12 "[ApplyFrameMap ''leds'' [7, 8, 9, 0, 0, 0]]"]
  by (simp add: example_group_lit_def example_group_def)

subsection \<open>C4: the rate limit\<close>

text \<open>
  A datagram that arrives less than \<open>1/max_fps\<close> after \<open>last_send\<close> and that the decoding
  step accepts leaves the handler with the decoded buffer, the same \<open>last_send\<close> and the
  same effect trace: nothing was applied and nothing was stored for later.
\<close>

lemma rate_limited_datagram:
  assumes "max_fps cfg > 0" "now - g_last_send g < 1 / max_fps cfg"
    and "decode_datagram (g_protocol g) data (g_frame_buffer g) = Inr (emit, fb')"
  shows "\<exists>g'. handle_datagram cfg env now data g trace = Inr (g', trace)
           \<and> g_frame_buffer g' = fb' \<and> g_last_send g' = g_last_send g"
  using assms by (simp add: handle_datagram_via_decode rate_limited_skip)

text \<open>The next datagram that is not rate limited and not held back by the decoder is
  applied with the buffer as it then stands: what the earlier, rate-limited datagrams wrote
  and this one did not overwrite is sent with it.\<close>

lemma eligible_datagram_applies_buffer:
  assumes "min_interval cfg = 0 \<or> now - g_last_send g \<ge> min_interval cfg"
    and "decode_datagram (g_protocol g) data (g_frame_buffer g) = Inr (True, fb')"
  shows "\<exists>g' rest. handle_datagram cfg env now data g trace
              = Inr (g', trace @ ApplyFrameMap (g_name g) fb' # rest)
           \<and> g_frame_buffer g' = fb' \<and> g_last_send g' = now"
  using assms
  by (auto simp: handle_datagram_via_decode rate_limit_and_apply_def call_apply_frame_map_def Let_def
      split: apply_outcome.split)

lemma handle_datagram_ddp_empty:
  "g_protocol g = ''ddp'' \<Longrightarrow> handle_datagram cfg env now [] g trace = Inl IndexError"
  by (simp add: handle_datagram_via_decode decode_datagram_def parse_ddp_empty)

text \<open>
  C4 says this of every datagram. The code does not do it for the empty datagram on a
  Group whose protocol is \<open>"ddp"\<close>: \<open>parse_ddp\<close> is called without the classifier's length
  check and reads \<open>data[0]\<close>. With 60 frames per second and \<open>last_send = 10\<close>, an empty
  datagram handled at time 10.01 is inside the rate-limit window, and the handler ends
  with the IndexError instead of returning.
\<close>

theorem C4_empty_datagram_raises:
  "max_fps example_cfg > 0
   \<and> (10 + 1 / 100) - g_last_send (example_group ''ddp'') < 1 / max_fps example_cfg
   \<and> handle_datagram example_cfg always_applied (10 + 1 / 100) [] (example_group ''ddp'') []
      = Inl IndexError"
  by (simp add: handle_datagram_ddp_empty example_group_def example_cfg_def)

subsection \<open>C9: DDP detection on a notification-family Group\<close>

text \<open>
  C9, as stated: after one DDP-classified datagram on a \<open>"wled"\<close> Group, every later
  datagram is decoded by the DDP decoder. This fails on the code. The Group of the
  example receives a DDP datagram (payload 7, 8, 9, push set) at time 11, which sets
  \<open>ddp_auto\<close>, and then the 4-byte datagram 2, 1, 2, 3 at time 12. The second datagram
  is not DDP-like, and the buffer after it is the one \<open>parse_wled_or_raw\<close> produces
  (1, 2, 3, 0, 0, 0), which is applied; \<open>parse_ddp\<close> would have left 7, 8, 9, 0, 0, 0 and
  reported no push.
\<close>

theorem C9_counterexample:
  "looks_like_ddp [0x41, 0, 0, 0, 0, 0, 0, 0, 0, 3, 7, 8, 9]
   \<and> handle_datagram example_cfg always_applied 11 [0x41, 0, 0, 0, 0, 0, 0, 0, 0, 3, 7, 8, 9]
        (example_group ''wled'') []
      = Inr ((example_group_lit ''wled'')\<lparr>g_ddp_auto := True\<rparr>,
             [ApplyFrameMap ''leds'' [7, 8, 9, 0, 0, 0]])
   \<and> handle_datagram example_cfg always_applied 12 [2, 1, 2, 3]
        ((example_group_lit ''wled'')\<lparr>g_ddp_auto := True\<rparr>)
        [ApplyFrameMap ''leds'' [7, 8, 9, 0, 0, 0]]
      = Inr ((example_group_lit ''wled'')\<lparr>g_ddp_auto := True, g_frame_buffer := [1, 2, 3, 0, 0, 0],
                g_last_send := 12, g_last_packet_ts := 12\<rparr>,
             [ApplyFrameMap ''leds'' [7, 8, 9, 0, 0, 0], ApplyFrameMap ''leds'' [1, 2, 3, 0, 0, 0]])
   \<and> parse_wled_or_raw [2, 1, 2, 3] [7, 8, 9, 0, 0, 0] = Inr [1, 2, 3, 0, 0, 0]
   \<and> parse_ddp [2, 1, 2, 3] [7, 8, 9, 0, 0, 0] = Inr (False, [7, 8, 9, 0, 0, 0])"
  by (simp add: handle_datagram_def note_datagram_def looks_like_ddp_def parse_ddp_def
      parse_wled_or_raw_def copy_and_clear_def clear_tail_def bindE_def get_item_def
      py_slice_def from_bytes_big_def set_slice_def rate_limit_and_apply_def min_interval_def
      call_apply_frame_map_def always_applied_def example_cfg_def example_group_def
      example_group_lit_def Let_def)

text \<open>
  C9, amended: on a Group whose protocol is \<open>"wled"\<close> or \<open>"auto"\<close> every datagram is
  classified on its own. The handler always returns, it never changes the Group's
  protocol, and the frame buffer after it is the result of \<open>parse_ddp\<close> when
  \<open>looks_like_ddp\<close> holds for this datagram and the result of \<open>parse_wled_or_raw\<close> when
  it does not, whatever was received before and whatever \<open>ddp_auto\<close> is.
\<close>

theorem C9_classified_per_datagram:
  assumes "g_protocol g \<in> {''wled'', ''auto''}"
  shows "\<exists>g' trace'. handle_datagram cfg env now data g trace = Inr (g', trace')
           \<and> g_protocol g' = g_protocol g
           \<and> (looks_like_ddp data \<longrightarrow>
                 (\<exists>push. parse_ddp data (g_frame_buffer g) = Inr (push, g_frame_buffer g')))
           \<and> (\<not> looks_like_ddp data \<longrightarrow>
                 parse_wled_or_raw data (g_frame_buffer g) = Inr (g_frame_buffer g'))"
proof (cases "looks_like_ddp data")
  case True
  then have "data \<noteq> []" by (auto simp: looks_like_ddp_def)
  from parse_ddp_ok[OF this, of "g_frame_buffer g"]
  obtain push fb' where p: "parse_ddp data (g_frame_buffer g) = Inr (push, fb')" by blast
  define g1 where "g1 = (mark_ddp_auto data (note_datagram cfg now data g))\<lparr>g_frame_buffer := fb'\<rparr>"
  have g1: "g_protocol g1 = g_protocol g" "g_frame_buffer g1 = fb'" by (simp_all add: g1_def)
  obtain g2 t2 where r: "rate_limit_and_apply cfg env now g1 trace = (g2, t2)"
    by (cases "rate_limit_and_apply cfg env now g1 trace")
  have d: "decode_datagram (g_protocol g) data (g_frame_buffer g) = Inr (push, fb')"
    using True assms p by (auto simp: decode_datagram_def)
  have "handle_datagram cfg env now data g trace = Inr (if push then (g2, t2) else (g1, trace))"
    by (simp add: handle_datagram_via_decode d r g1_def[symmetric])
  with rate_limit_and_apply_keeps[OF r] g1 True p show ?thesis by (cases push) auto
next
  case False
  obtain w where w: "parse_wled_or_raw data (g_frame_buffer g) = Inr w"
    using parse_wled_or_raw_ok by blast
  define g1 where "g1 = (mark_ddp_auto data (note_datagram cfg now data g))\<lparr>g_frame_buffer := w\<rparr>"
  have g1: "g_protocol g1 = g_protocol g" "g_frame_buffer g1 = w" by (simp_all add: g1_def)
  obtain g2 t2 where r: "rate_limit_and_apply cfg env now g1 trace = (g2, t2)"
    by (cases "rate_limit_and_apply cfg env now g1 trace")
  have d: "decode_datagram (g_protocol g) data (g_frame_buffer g) = Inr (True, w)"
    using False assms w by (auto simp: decode_datagram_def bindE_def)
  have "handle_datagram cfg env now data g trace = Inr (g2, t2)"
    by (simp add: handle_datagram_via_decode d r g1_def[symmetric])
  with rate_limit_and_apply_keeps[OF r] g1 False w show ?thesis by auto
qed

text \<open>Witness for C9: the Group of the counterexample, with \<open>ddp_auto\<close> already set, and
  the datagram 2, 1, 2, 3, which is not DDP-like.\<close>

theorem C9_classified_per_datagram_witness:
  "g_protocol ((example_group_lit ''wled'')\<lparr>g_ddp_auto := True\<rparr>) \<in> {''wled'', ''auto''}
   \<and> \<not> looks_like_ddp [2, 1, 2, 3]
   \<and> (\<exists>g' trace'.
         handle_datagram example_cfg always_applied 12 [2, 1, 2, 3]
           ((example_group_lit ''wled'')\<lparr>g_ddp_auto := True\<rparr>) [] = Inr (g', trace')
         \<and> g_protocol g' = ''wled''
         \<and> parse_wled_or_raw [2, 1, 2, 3] [7, 8, 9, 0, 0, 0] = Inr (g_frame_buffer g'))"
  using C9_classified_per_datagram [of "(example_group_lit ''wled'')\<lparr>g_ddp_auto := True\<rparr>"
      example_cfg always_applied 12 "[2, 1, 2, 3]" "[]"]
  by (simp add: example_group_lit_def example_group_def looks_like_ddp_def)

subsection \<open>C8: the idle clear\<close>






section \<open>Verification: the device mapper\<close>

subsection \<open>C5: the order of a device\<close>

text \<open>
  C5: \<open>get_device_order\<close> returns the stored order when its length is the device's LED
  count, and the identity order \<open>0, 1, ..., n-1\<close> over the device's \<open>n\<close> LEDs when the
  stored order has another length or no order is stored; the returned sequence has
  length \<open>n\<close> in every case.
\<close>

theorem C5_get_device_order:
  "get_device_order m d =
     (case order_by_device m d of
        Some ord \<Rightarrow> if length ord = led_count m d then ord else map int [0..<led_count m d]
      | None \<Rightarrow> map int [0..<led_count m d])
   \<and> length (get_device_order m d) = led_count m d"
proof (cases "order_by_device m d")
  case None
  then show ?thesis
    by (simp add: get_device_order_def led_count_def)
next
  case (Some ord)
  show ?thesis
  proof (cases "length ord = led_count m d")
    case True
    then have "ord = [] \<Longrightarrow> map int [0..<led_count m d] = ord" by simp
    with Some True show ?thesis
      by (auto simp: get_device_order_def led_count_def)
  next
    case False
    with Some show ?thesis
      by (auto simp: get_device_order_def led_count_def)
  qed
qed

text \<open>Witness for C5: the keyboard of the example has two LEDs and the stored order
  1, 0, which is returned; the fan has no LED and a stored order of length 3, which is
  discarded; an unknown device gets the empty order.\<close>

theorem C5_get_device_order_witness:
  "get_device_order example_mapper ''kbd'' = [1, 0]
   \<and> get_device_order example_mapper ''fan'' = []
   \<and> get_device_order example_mapper ''mouse'' = []
   \<and> get_device_order (example_mapper\<lparr>order_by_device := [''kbd'' \<mapsto> [2, 1, 0]]\<rparr>) ''kbd'' = [0, 1]"
  using C5_get_device_order [of example_mapper "''kbd''"]
    C5_get_device_order [of example_mapper "''fan''"]
    C5_get_device_order [of example_mapper "''mouse''"]
    C5_get_device_order [of "example_mapper\<lparr>order_by_device := [''kbd'' \<mapsto> [2, 1, 0]]\<rparr>" "''kbd''"]
  by (simp add: led_count_def example_mapper_def upt_rec)

subsection \<open>C6: the result of apply_frame_map\<close>

lemma try_set_history:
  "try_set sdk k d cs h = (ok, h') \<Longrightarrow> h' = h @ [Write k d cs ok]"
  by (auto simp: try_set_def Let_def)

text \<open>Each of the three write loops extends the SDK history, and its flag is the flag it
  started with or the success of one of the writes it made.\<close>

lemma direct_loop_sound:
  "direct_loop sdk m ds any_ok h = (b, h') \<Longrightarrow>
     \<exists>new. h' = h @ new \<and> (b \<longleftrightarrow> any_ok \<or> (\<exists>ev\<in>set new. write_succeeded ev))"
proof (induction ds arbitrary: any_ok h)
  case Nil
  then show ?case by simp
next
  case (Cons d ds)
  show ?case
  proof (cases "led_colors_by_device m d = None \<or> led_colors_by_device m d = Some []")
    case True
    with Cons show ?thesis by auto
  next
    case False
    then obtain cs where cs: "led_colors_by_device m d = Some cs" "cs \<noteq> []" by auto
    obtain okd h1 where t: "try_set sdk Direct d cs h = (okd, h1)"
      by (cases "try_set sdk Direct d cs h")
    from Cons.prems cs t have "direct_loop sdk m ds (any_ok \<or> okd) h1 = (b, h')" by simp
    from Cons.IH[OF this] obtain new where n: "h' = h1 @ new"
      "b \<longleftrightarrow> (any_ok \<or> okd) \<or> (\<exists>ev\<in>set new. write_succeeded ev)" by blast
    from try_set_history[OF t] n show ?thesis
      by (intro exI[of _ "Write Direct d cs okd # new"]) auto
  qed
qed

lemma buffer_loop_sound:
  "buffer_loop sdk m ds any_ok used h = (b, u, h') \<Longrightarrow>
     \<exists>new. h' = h @ new \<and> (b \<longleftrightarrow> any_ok \<or> (\<exists>ev\<in>set new. write_succeeded ev))"
proof (induction ds arbitrary: any_ok used h)
  case Nil
  then show ?case by simp
next
  case (Cons d ds)
  show ?case
  proof (cases "led_colors_by_device m d = None \<or> led_colors_by_device m d = Some []")
    case True
    with Cons show ?thesis by auto
  next
    case False
    then obtain cs where cs: "led_colors_by_device m d = Some cs" "cs \<noteq> []" by auto
    obtain okb h1 where t1: "try_set sdk Buffered d cs h = (okb, h1)"
      by (cases "try_set sdk Buffered d cs h")
    show ?thesis
    proof (cases okb)
      case True
      from Cons.prems cs t1 True have "buffer_loop sdk m ds True True h1 = (b, u, h')" by simp
      from Cons.IH[OF this] obtain new where n: "h' = h1 @ new" "b" by blast
      from try_set_history[OF t1] n True show ?thesis
        by (intro exI[of _ "Write Buffered d cs okb # new"]) auto
    next
      case False
      obtain okd h2 where t2: "try_set sdk Direct d cs h1 = (okd, h2)"
        by (cases "try_set sdk Direct d cs h1")
      from Cons.prems cs t1 t2 False
      have "buffer_loop sdk m ds (any_ok \<or> okd) used h2 = (b, u, h')" by simp
      from Cons.IH[OF this] obtain new where n: "h' = h2 @ new"
        "b \<longleftrightarrow> (any_ok \<or> okd) \<or> (\<exists>ev\<in>set new. write_succeeded ev)" by blast
      from try_set_history[OF t1] try_set_history[OF t2] n False show ?thesis
        by (intro exI[of _ "Write Buffered d cs okb # Write Direct d cs okd # new"]) auto
    qed
  qed
qed

lemma auto_loop_sound:
  "auto_loop sdk m ds any_ok used h = (b, u, h') \<Longrightarrow>
     \<exists>new. h' = h @ new \<and> (b \<longleftrightarrow> any_ok \<or> (\<exists>ev\<in>set new. write_succeeded ev))"
proof (induction ds arbitrary: any_ok used h)
  case Nil
  then show ?case by simp
next
  case (Cons d ds)
  show ?case
  proof (cases "led_colors_by_device m d = None \<or> led_colors_by_device m d = Some []")
    case True
    with Cons show ?thesis by auto
  next
    case False
    then obtain cs where cs: "led_colors_by_device m d = Some cs" "cs \<noteq> []" by auto
    obtain okd h1 where t1: "try_set sdk Direct d cs h = (okd, h1)"
      by (cases "try_set sdk Direct d cs h")
    show ?thesis
    proof (cases okd)
      case True
      from Cons.prems cs t1 True have "auto_loop sdk m ds True used h1 = (b, u, h')" by simp
      from Cons.IH[OF this] obtain new where n: "h' = h1 @ new" "b" by blast
      from try_set_history[OF t1] n True show ?thesis
        by (intro exI[of _ "Write Direct d cs okd # new"]) auto
    next
      case False
      obtain okb h2 where t2: "try_set sdk Buffered d cs h1 = (okb, h2)"
        by (cases "try_set sdk Buffered d cs h1")
      from Cons.prems cs t1 t2 False
      have "auto_loop sdk m ds (any_ok \<or> okb) (if okb then True else used) h2 = (b, u, h')"
        by (cases okb) simp_all
      from Cons.IH[OF this] obtain new where n: "h' = h2 @ new"
        "b \<longleftrightarrow> (any_ok \<or> okb) \<or> (\<exists>ev\<in>set new. write_succeeded ev)" by blast
      from try_set_history[OF t1] try_set_history[OF t2] n False show ?thesis
        by (intro exI[of _ "Write Direct d cs okd # Write Buffered d cs okb # new"]) auto
    qed
  qed
qed

lemma flush_if_history:
  "\<exists>fl. flush_if u h = h @ fl \<and> (\<forall>ev\<in>set fl. \<not> write_succeeded ev)"
  by (cases u) (simp_all add: flush_if_def)

lemma push_colors_sound:
  assumes "push_colors sdk m ds mode h = (b, h')"
  shows "\<exists>new. h' = h @ new \<and> (b \<longleftrightarrow> (\<exists>ev\<in>set new. write_succeeded ev))"
proof -
  define md where "md = py_lower (str_or mode ''auto'')"
  consider (direct) "md = ''direct''"
    | (buffer) "md \<noteq> ''direct''" "md = ''buffer''"
    | (safe) "md \<noteq> ''direct''" "md = ''buffer_safe''"
    | (other) "md \<noteq> ''direct''" "md \<noteq> ''buffer''" "md \<noteq> ''buffer_safe''"
    by blast
  then show ?thesis
  proof cases
    case direct
    with assms have "direct_loop sdk m ds False h = (b, h')"
      by (simp add: push_colors_def md_def)
    from direct_loop_sound[OF this] show ?thesis by simp
  next
    case buffer
    obtain a u h1 where l: "buffer_loop sdk m ds False False h = (a, u, h1)"
      by (cases "buffer_loop sdk m ds False False h") auto
    from buffer assms l have r: "b = a" "h' = flush_if u h1"
      by (simp_all add: push_colors_def md_def[symmetric])
    from buffer_loop_sound[OF l] obtain new where n: "h1 = h @ new"
      "a \<longleftrightarrow> (\<exists>ev\<in>set new. write_succeeded ev)" by auto
    from flush_if_history[of u h1] obtain fl where f: "flush_if u h1 = h1 @ fl"
      "\<forall>ev\<in>set fl. \<not> write_succeeded ev" by blast
    from r n f show ?thesis by (intro exI[of _ "new @ fl"]) auto
  next
    case safe
    obtain a u h1 where l: "buffer_loop sdk m ds False False h = (a, u, h1)"
      by (cases "buffer_loop sdk m ds False False h") auto
    from safe assms l have r: "direct_loop sdk m ds a (flush_if u h1) = (b, h')"
      by (simp add: push_colors_def md_def[symmetric])
    from buffer_loop_sound[OF l] obtain new where n: "h1 = h @ new"
      "a \<longleftrightarrow> (\<exists>ev\<in>set new. write_succeeded ev)" by auto
    from flush_if_history[of u h1] obtain fl where f: "flush_if u h1 = h1 @ fl"
      "\<forall>ev\<in>set fl. \<not> write_succeeded ev" by blast
    from direct_loop_sound[OF r] obtain new2 where n2: "h' = flush_if u h1 @ new2"
      "b \<longleftrightarrow> a \<or> (\<exists>ev\<in>set new2. write_succeeded ev)" by blast
    from n f n2 show ?thesis by (intro exI[of _ "new @ fl @ new2"]) auto
  next
    case other
    obtain a u h1 where l: "auto_loop sdk m ds False False h = (a, u, h1)"
      by (cases "auto_loop sdk m ds False False h") auto
    from other assms l have r: "b = a" "h' = flush_if u h1"
      by (simp_all add: push_colors_def md_def[symmetric])
    from auto_loop_sound[OF l] obtain new where n: "h1 = h @ new"
      "a \<longleftrightarrow> (\<exists>ev\<in>set new. write_succeeded ev)" by auto
    from flush_if_history[of u h1] obtain fl where f: "flush_if u h1 = h1 @ fl"
      "\<forall>ev\<in>set fl. \<not> write_succeeded ev" by blast
    from r n f show ?thesis by (intro exI[of _ "new @ fl"]) auto
  qed
qed

lemma apply_frame_map_sound:
  assumes "apply_frame_map sdk m map_list ds frame lut mode h = (res, m', h')"
  shows "\<exists>new. h' = h @ new
           \<and> (res = Inr True \<longleftrightarrow> (\<exists>ev\<in>set new. write_succeeded ev))
           \<and> (map_list = [] \<longrightarrow> res = Inr False \<and> new = [])
           \<and> ((\<exists>e. res = Inl e) \<longrightarrow> new = [])"
proof (cases "map_list = []")
  case True
  with assms show ?thesis by (auto simp: apply_frame_map_def)
next
  case False
  define l where "l = (case lut of None \<Rightarrow> map int [0..<256] | Some l \<Rightarrow> l)"
  obtain err m1 where c: "compose_colors m map_list ds frame l = (err, m1)"
    by (cases "compose_colors m map_list ds frame l")
  show ?thesis
  proof (cases err)
    case (Some e)
    with assms False c show ?thesis by (auto simp: apply_frame_map_def l_def[symmetric])
  next
    case None
    obtain b h1 where p: "push_colors sdk m1 ds mode h = (b, h1)"
      by (cases "push_colors sdk m1 ds mode h")
    with assms False c None have r: "res = Inr b" "h' = h1"
      by (simp_all add: apply_frame_map_def l_def[symmetric])
    from push_colors_sound[OF p] r False show ?thesis by auto
  qed
qed

text \<open>
  C6: for every update mode, \<open>apply_frame_map\<close> returns True exactly when one of the
  device writes it made (direct or buffered) reported success. With an empty map entry
  list it returns False and makes no SDK call. When it raises instead of returning, which
  only the composition of the colours can cause, it has made no SDK call either. So it
  returns False whenever it returns and every write it attempted failed.
\<close>

theorem C6_apply_frame_map_result:
  "\<exists>new. snd (snd (apply_frame_map sdk m map_list ds frame lut mode h)) = h @ new
     \<and> (fst (apply_frame_map sdk m map_list ds frame lut mode h) = Inr True
          \<longleftrightarrow> (\<exists>ev\<in>set new. write_succeeded ev))
     \<and> (map_list = [] \<longrightarrow>
          fst (apply_frame_map sdk m map_list ds frame lut mode h) = Inr False \<and> new = [])
     \<and> ((\<exists>e. fst (apply_frame_map sdk m map_list ds frame lut mode h) = Inl e) \<longrightarrow> new = [])"
  using apply_frame_map_sound [of sdk m map_list ds frame lut mode h
      "fst (apply_frame_map sdk m map_list ds frame lut mode h)"
      "fst (snd (apply_frame_map sdk m map_list ds frame lut mode h))"
      "snd (snd (apply_frame_map sdk m map_list ds frame lut mode h))"]
  by simp

text \<open>
  Witness for C6, on the mapper of the example. In mode \<open>auto\<close> with an SDK whose direct
  writes fail and whose buffered writes succeed, the direct write to the keyboard fails,
  the buffered one succeeds, the buffer is flushed and the result is True; the fan has no
  LED and gets no write. With an SDK that accepts nothing, mode \<open>buffer_safe\<close> makes three
  failing writes and returns False. An empty map entry list returns False without any
  call, and an entry for a device the mapper does not know raises without any call.
\<close>

theorem C6_apply_frame_map_result_witness:
  "fst (apply_frame_map buffered_only_sdk example_mapper example_map [''kbd'', ''fan'']
          [1, 2, 3, 4, 5, 6] None None []) = Inr True
   \<and> snd (snd (apply_frame_map buffered_only_sdk example_mapper example_map [''kbd'', ''fan'']
          [1, 2, 3, 4, 5, 6] None None []))
      = [Write Direct ''kbd'' [\<lparr>c_id = 101, c_r = 4, c_g = 5, c_b = 6, c_a = 255\<rparr>,
                              \<lparr>c_id = 102, c_r = 1, c_g = 2, c_b = 3, c_a = 255\<rparr>] False,
         Write Buffered ''kbd'' [\<lparr>c_id = 101, c_r = 4, c_g = 5, c_b = 6, c_a = 255\<rparr>,
                                \<lparr>c_id = 102, c_r = 1, c_g = 2, c_b = 3, c_a = 255\<rparr>] True,
         Flush]
   \<and> fst (apply_frame_map failing_sdk example_mapper example_map [''kbd'', ''fan'']
          [1, 2, 3, 4, 5, 6] None (Some ''buffer_safe'') []) = Inr False
   \<and> length (snd (snd (apply_frame_map failing_sdk example_mapper example_map [''kbd'', ''fan'']
          [1, 2, 3, 4, 5, 6] None (Some ''buffer_safe'') []))) = Suc (Suc (Suc 0))
   \<and> apply_frame_map buffered_only_sdk example_mapper [] [''kbd'', ''fan'']
          [1, 2, 3, 4, 5, 6] None None [] = (Inr False, example_mapper, [])
   \<and> fst (apply_frame_map buffered_only_sdk example_mapper
          [\<lparr>e_device = ''ghost'', e_led_idx = One 0, e_src_index = None, e_wb = None\<rparr>]
          [''kbd'', ''fan''] [1, 2, 3, 4, 5, 6] None None []) = Inl KeyError
   \<and> snd (snd (apply_frame_map buffered_only_sdk example_mapper
          [\<lparr>e_device = ''ghost'', e_led_idx = One 0, e_src_index = None, e_wb = None\<rparr>]
          [''kbd'', ''fan''] [1, 2, 3, 4, 5, 6] None None [])) = []"
  using C6_apply_frame_map_result [of buffered_only_sdk example_mapper example_map
      "[''kbd'', ''fan'']" "[1, 2, 3, 4, 5, 6]" None None "[]"]
    C6_apply_frame_map_result [of failing_sdk example_mapper example_map
      "[''kbd'', ''fan'']" "[1, 2, 3, 4, 5, 6]" None "Some ''buffer_safe''" "[]"]
    C6_apply_frame_map_result [of buffered_only_sdk example_mapper "[]"
      "[''kbd'', ''fan'']" "[1, 2, 3, 4, 5, 6]" None None "[]"]
    C6_apply_frame_map_result [of buffered_only_sdk example_mapper
      "[\<lparr>e_device = ''ghost'', e_led_idx = One 0, e_src_index = None, e_wb = None\<rparr>]"
      "[''kbd'', ''fan'']" "[1, 2, 3, 4, 5, 6]" None None "[]"]
  by (simp add: apply_frame_map_def compose_colors_def example_mapper_def example_map_def
      entry_rgb_def entry_offset_def target_indices_def py_index_def py_update_def norm_index_def
      get_item_def bindE_def push_colors_def py_lower_def str_or_def lower_char_def
      try_set_def buffered_only_sdk_def failing_sdk_def flush_if_def init_rebuilt_map_def
      led_count_def Let_def)

section \<open>Verification: the serpentine order\<close>

text \<open>
  C7: for the positions \<open>(0,0), (1,0), (0,1), (1,1)\<close> in that index order, a row
  tolerance that merges equal Y values and keeps the two Y values apart (any tolerance
  above 0 and below 1, such as 0.4), first direction \<open>"left"\<close>, row order \<open>"top"\<close>, no
  row count, no flip or swap and mode \<open>"serpentine"\<close>, the order is \<open>[0, 1, 3, 2]\<close>: the
  row of the lower Y first, ascending in X, then the second row descending in X.
  The row clustering used with a row count plays no part.
\<close>

theorem C7_serpentine_four_points:
  assumes "0 < t" "t < 1"
  shows "compute_serpentine_order cluster_rows four_positions (Some t) (Some ''left'') (Some ''top'')
           None False False False (Some ''serpentine'') = Some [0, 1, 3, 2]"
  using assms
  by (simp add: compute_serpentine_order_def four_positions_def row_tol_def str_or_def
      py_lower_def lower_char_def pt_x_def pt_y_def pt_idx_def Let_def)

text \<open>Witness for C7: the tolerance 0.4 of the claim.\<close>

theorem C7_serpentine_four_points_witness:
  "(0 :: rat) < 2 / 5 \<and> (2 :: rat) / 5 < 1
   \<and> compute_serpentine_order no_clusters four_positions (Some (2 / 5)) (Some ''left'')
        (Some ''top'') None False False False (Some ''serpentine'') = Some [0, 1, 3, 2]"
  using C7_serpentine_four_points [of "2 / 5" no_clusters]
  by simp

end
